theory Spec2Isabelle
  imports
    Complex_Main
    "HOL-Library.Multiset"
    "HOL-Library.Char_ord"
    "HOL-Library.List_Lexorder"
    "HOL-Library.Product_Lexorder"
begin

section \<open>Data model\<close>

text \<open>
  One row of \<^verbatim>\<open>complete_data.csv\<close>, with the columns that \<^verbatim>\<open>aggregate_data.py\<close> reads.
  The column \<^verbatim>\<open>id\<close> is called \<open>ident\<close> here, since \<open>id\<close> is the identity function of HOL.
  Prices are rationals: the arithmetic of the source is read as exact arithmetic, and a cell
  that may be NaN is an \<open>option\<close>. Strings are ordered bytewise and lexicographically, as
  Python orders them.
\<close>

record listing =
  ident :: int
  district :: string
  street :: string
  rental_type :: string
  year :: int
  rooms :: string
  rent_per_square_meter :: rat
  rent_without_expenses :: rat
  geometry :: string
  geometry_street :: string

text \<open>
  The data frame \<^verbatim>\<open>complete_data\<close> that \<^verbatim>\<open>main\<close> hands to both aggregators: its rows, and
  the column \<^verbatim>\<open>time\<close>, which the file does not have (\<open>None\<close>) and which line 26 of the source
  stores into the frame.
\<close>

record frame =
  listings :: "listing list"
  time :: "string list option"

datatype error = ValueError | KeyError

section \<open>Library operations of the data-frame package\<close>

definition mean :: "rat list \<Rightarrow> rat" where
  "mean xs = sum_list xs / of_nat (length xs)"

text \<open>The keys of a \<^verbatim>\<open>groupby\<close> or of a \<^verbatim>\<open>pivot\<close> axis: each key once, ascending.\<close>

definition group_keys :: "('a \<Rightarrow> 'k::linorder) \<Rightarrow> 'a list \<Rightarrow> 'k list" where
  "group_keys f xs = sort (remdups (map f xs))"

text \<open>\<^verbatim>\<open>drop_duplicates()\<close> keeps the first occurrence of every row, in row order.\<close>

fun drop_duplicates :: "'a list \<Rightarrow> 'a list" where
  "drop_duplicates [] = []"
| "drop_duplicates (x # xs) = x # drop_duplicates (filter (\<lambda>y. y \<noteq> x) xs)"

text \<open>
  \<^verbatim>\<open>left.merge(right, on=key)\<close> with the default \<^verbatim>\<open>how="inner"\<close>: every pair of a left and a
  right row with the same key, in the order of the left rows.
\<close>

definition merge :: "('a \<Rightarrow> 'k) \<Rightarrow> ('b \<Rightarrow> 'k) \<Rightarrow> 'a list \<Rightarrow> 'b list \<Rightarrow> ('a \<times> 'b) list" where
  "merge ka kb ls rs = concat (map (\<lambda>l. map (Pair l) (filter (\<lambda>r. kb r = ka l) rs)) ls)"

text \<open>\<^verbatim>\<open>head(n)\<close>: the first \<open>n\<close> rows; for a negative \<open>n\<close>, all rows but the last \<open>-n\<close>.\<close>

definition head :: "int \<Rightarrow> 'a list \<Rightarrow> 'a list" where
  "head n xs = (if 0 \<le> n then take (nat n) xs else take (length xs - nat (- n)) xs)"

text \<open>
  \<^verbatim>\<open>round(1)\<close> rounds to one decimal, a half to the even neighbour; NaN stays NaN.
\<close>

definition rint :: "rat \<Rightarrow> int" where
  "rint x =
     (let f = \<lfloor>x\<rfloor>; r = x - of_int f
      in if r < 1 / 2 then f else if 1 / 2 < r then f + 1 else if even f then f else f + 1)"

definition round1 :: "rat option \<Rightarrow> rat option" where
  "round1 c = map_option (\<lambda>x. of_int (rint (x * 10)) / 10) c"

section \<open>The district aggregator\<close>

definition time_tag :: "int \<Rightarrow> string" where
  "time_tag x = (if x = 2023 then ''now'' else ''then'')"

text \<open>Line 26: the column \<^verbatim>\<open>time\<close> is stored into the frame that the caller passed.\<close>

definition add_time :: "frame \<Rightarrow> frame" where
  "add_time df = df\<lparr>time := Some (map (\<lambda>l. time_tag (year l)) (listings df))\<rparr>"

text \<open>
  Lines 29 and 32: \<^verbatim>\<open>groupby(["district", "rental_type", "time"])\<close> with the two means, pivoted
  on the district. A cell is the mean of its group, and NaN for a district that has no listing
  of the column's rental type and time.
\<close>

definition price_cell ::
  "(listing \<times> string) list \<Rightarrow> (listing \<Rightarrow> rat) \<Rightarrow> string \<Rightarrow> string \<times> string \<Rightarrow> rat option" where
  "price_cell tagged m d c =
     (let g = filter (\<lambda>(l, t). district l = d \<and> (rental_type l, t) = c) tagged
      in if g = [] then None else Some (mean (map (\<lambda>(l, t). m l) g)))"

text \<open>
  The price table after lines 35 to 42. Its fields carry the names that line 35 assigns and
  line 39 keeps; \<open>pt_district\<close> is the column \<^verbatim>\<open>district\<close>.
\<close>

record price_row =
  pt_district :: string
  pt_apartment_rent_sqm_now :: "rat option"
  pt_apartment_rent_sqm_then :: "rat option"
  pt_room_rent_now :: "rat option"
  pt_room_rent_then :: "rat option"

text \<open>
  The pivoted table has the district and, for each of the two metrics, one column per
  (rental type, time) pair that occurs in the data, ascending. Line 35 assigns nine names by
  position and raises \<^verbatim>\<open>ValueError\<close> (length mismatch) unless there are nine columns, that is
  four pairs. Line 39 keeps the first two columns of \<^verbatim>\<open>rent_per_square_meter\<close> and the last two
  of \<^verbatim>\<open>rent_without_expenses\<close>.
\<close>

definition price_table :: "(listing \<times> string) list \<Rightarrow> error + price_row list" where
  "price_table tagged =
     (let index = group_keys (\<lambda>(l, t). district l) tagged;
          cols = group_keys (\<lambda>(l, t). (rental_type l, t)) tagged
      in if 1 + 2 * length cols \<noteq> 9 then Inl ValueError
         else Inr (map (\<lambda>d.
           \<lparr>pt_district = d,
            pt_apartment_rent_sqm_now = round1 (price_cell tagged rent_per_square_meter d (cols ! 0)),
            pt_apartment_rent_sqm_then = round1 (price_cell tagged rent_per_square_meter d (cols ! 1)),
            pt_room_rent_now = round1 (price_cell tagged rent_without_expenses d (cols ! 2)),
            pt_room_rent_then = round1 (price_cell tagged rent_without_expenses d (cols ! 3))\<rparr>) index))"

text \<open>
  Lines 46 to 55: the listings of 2023, counted by district and \<^verbatim>\<open>rooms\<close>, pivoted on the
  district, NaN replaced by 0. The filter of line 46 is on the year alone.
\<close>

definition rooms_cell :: "listing list \<Rightarrow> string \<Rightarrow> string \<Rightarrow> nat option" where
  "rooms_cell now d r =
     (let g = filter (\<lambda>l. district l = d \<and> rooms l = r) now
      in if g = [] then None else Some (length g))"

definition fillna :: "nat option \<Rightarrow> nat" where
  "fillna c = (case c of None \<Rightarrow> 0 | Some n \<Rightarrow> n)"

record count_row =
  ct_district :: string
  ct_apartments_w_1_room :: nat
  ct_apartments_w_2_rooms :: nat
  ct_apartments_w_3_rooms :: nat
  ct_apartments_w_4_rooms :: nat
  ct_apartments_w_p4_rooms :: nat

definition rooms_count_table :: "listing list \<Rightarrow> error + count_row list" where
  "rooms_count_table rows =
     (let now = filter (\<lambda>l. year l = 2023) rows;
          index = group_keys district now;
          cols = group_keys rooms now
      in if 1 + length cols \<noteq> 6 then Inl ValueError
         else Inr (map (\<lambda>d.
           \<lparr>ct_district = d,
            ct_apartments_w_1_room = fillna (rooms_cell now d (cols ! 0)),
            ct_apartments_w_2_rooms = fillna (rooms_cell now d (cols ! 1)),
            ct_apartments_w_3_rooms = fillna (rooms_cell now d (cols ! 2)),
            ct_apartments_w_4_rooms = fillna (rooms_cell now d (cols ! 3)),
            ct_apartments_w_p4_rooms = fillna (rooms_cell now d (cols ! 4))\<rparr>) index))"

text \<open>A row of \<^verbatim>\<open>district_aggregates.csv\<close>: the price row, the count row and the geometry.\<close>

record district_row =
  prices :: price_row
  counts :: count_row
  da_geometry :: string

text \<open>
  Lines 58 and 61: the counts, then the geometry of each district (the distinct pairs of
  district and geometry among the listings), merged onto the price table by district.
\<close>

definition merge_district_tables ::
  "price_row list \<Rightarrow> count_row list \<Rightarrow> (string \<times> string) list \<Rightarrow> district_row list" where
  "merge_district_tables district_data apartment_rooms_count geoms =
     map (\<lambda>((p, c), (d, g)). \<lparr>prices = p, counts = c, da_geometry = g\<rparr>)
       (merge (\<lambda>(p, c). pt_district p) fst
          (merge pt_district ct_district district_data apartment_rooms_count) geoms)"

definition district_geometry :: "listing list \<Rightarrow> (string \<times> string) list" where
  "district_geometry rows = drop_duplicates (map (\<lambda>l. (district l, geometry l)) rows)"

definition district_table :: "frame \<Rightarrow> error + district_row list" where
  "district_table df =
     (case time df of
        None \<Rightarrow> Inl KeyError
      | Some ts \<Rightarrow>
          (case price_table (zip (listings df) ts) of
             Inl e \<Rightarrow> Inl e
           | Inr district_data \<Rightarrow>
               (case rooms_count_table (listings df) of
                  Inl e \<Rightarrow> Inl e
                | Inr apartment_rooms_count \<Rightarrow>
                    Inr (merge_district_tables district_data apartment_rooms_count
                           (district_geometry (listings df))))))"

text \<open>
  \<^verbatim>\<open>get_district_aggregates\<close>: the frame of the caller with the column \<^verbatim>\<open>time\<close> stored in it,
  which stays so when a later line raises, and the table or the error.
\<close>

definition get_district_aggregates :: "frame \<Rightarrow> frame \<times> (error + district_row list)" where
  "get_district_aggregates complete_data =
     (let df = add_time complete_data in (df, district_table df))"

section \<open>The street aggregator\<close>

text \<open>A row of \<^verbatim>\<open>street_data\<close> after the \<^verbatim>\<open>groupby(["street"])\<close> of line 141.\<close>

record street_row =
  sr_street :: string
  sr_rent_per_square_meter :: rat
  sr_rent_without_expenses :: rat

text \<open>
  \<^verbatim>\<open>sort_values(by="abs_diff", ascending=True)\<close> sorts with the package's default kind,
  \<^verbatim>\<open>quicksort\<close>, which is documented as not stable. The sort is therefore a parameter of the
  model, and \<open>sort_values_spec\<close> is all that the package promises of it: the result is
  ascending in the key and holds the same rows.
\<close>

type_synonym 'a sort_values = "('a \<Rightarrow> rat) \<Rightarrow> 'a list \<Rightarrow> 'a list"

definition sort_values_spec :: "'a sort_values \<Rightarrow> bool" where
  "sort_values_spec srt = (\<forall>k xs. sorted (map k (srt k xs)) \<and> mset (srt k xs) = mset xs)"

definition abs_diff :: "street_row \<Rightarrow> street_row \<Rightarrow> rat" where
  "abs_diff target r = \<bar>sr_rent_per_square_meter r - sr_rent_per_square_meter target\<bar>"

text \<open>The body of the loop of lines 84 to 96, for the target row \<open>target\<close>.\<close>

definition similar_streets ::
  "street_row sort_values \<Rightarrow> street_row list \<Rightarrow> int \<Rightarrow> street_row \<Rightarrow> street_row list" where
  "similar_streets srt street_data n_similar_streets target =
     (let other_streets = filter (\<lambda>r. sr_street r \<noteq> sr_street target) street_data
      in head n_similar_streets (srt (abs_diff target) other_streets))"

definition most_similar_streets ::
  "street_row sort_values \<Rightarrow> street_row list \<Rightarrow> int \<Rightarrow> string list list" where
  "most_similar_streets srt street_data n =
     map (\<lambda>target. map sr_street (similar_streets srt street_data n target)) street_data"

definition most_similar_rents ::
  "street_row sort_values \<Rightarrow> street_row list \<Rightarrow> int \<Rightarrow> rat list list" where
  "most_similar_rents srt street_data n =
     map (\<lambda>target. map sr_rent_per_square_meter (similar_streets srt street_data n target))
       street_data"

text \<open>Lines 107 and 111: the column names, for \<^verbatim>\<open>i\<close> in \<^verbatim>\<open>range(5)\<close>.\<close>

definition new_columns_streets :: "string list" where
  "new_columns_streets =
     [''most_similar_1'', ''most_similar_2'', ''most_similar_3'', ''most_similar_4'',
      ''most_similar_5'']"

definition new_columns_rents :: "string list" where
  "new_columns_rents =
     [''most_similar_rent_1'', ''most_similar_rent_2'', ''most_similar_rent_3'',
      ''most_similar_rent_4'', ''most_similar_rent_5'']"

text \<open>
  \<^verbatim>\<open>pd.DataFrame(data, columns=columns)\<close> for a list of lists: no row gives the empty frame
  with these columns; otherwise the frame is as wide as the longest list, shorter lists are
  filled with missing values, and a number of names other than this width raises
  \<^verbatim>\<open>ValueError\<close>.
\<close>

definition DataFrame :: "'a list list \<Rightarrow> string list \<Rightarrow> error + 'a option list list" where
  "DataFrame data columns =
     (if data = [] then Inr []
      else let w = fold max (map length data) 0
           in if length columns \<noteq> w then Inl ValueError
              else Inr (map (\<lambda>r. map Some r @ replicate (w - length r) None) data))"

text \<open>
  A row of the result of \<^verbatim>\<open>similar_rent_prices\<close>: the cells under \<open>new_columns_streets\<close> and
  under \<open>new_columns_rents\<close>, beside the row of \<^verbatim>\<open>street_data\<close>.
\<close>

record similar_row =
  base :: street_row
  most_similar :: "string option list"
  most_similar_rent :: "rat option list"

definition similar_rent_prices ::
  "street_row sort_values \<Rightarrow> street_row list \<Rightarrow> int \<Rightarrow> error + similar_row list" where
  "similar_rent_prices srt street_data n_similar_streets =
     (case DataFrame (most_similar_streets srt street_data n_similar_streets) new_columns_streets of
        Inl e \<Rightarrow> Inl e
      | Inr unpacked_df_streets \<Rightarrow>
          (case DataFrame (most_similar_rents srt street_data n_similar_streets) new_columns_rents of
             Inl e \<Rightarrow> Inl e
           | Inr unpacked_df_rents \<Rightarrow>
               Inr (map (\<lambda>(r, s, p). \<lparr>base = r, most_similar = s, most_similar_rent = p\<rparr>)
                 (zip street_data (zip unpacked_df_streets unpacked_df_rents)))))"

text \<open>A row of \<^verbatim>\<open>street_aggregates.csv\<close>.\<close>

record street_agg =
  similar :: similar_row
  count :: nat
  sa_geometry_street :: string

definition street_groups :: "listing list \<Rightarrow> street_row list" where
  "street_groups cd =
     map (\<lambda>s. let g = filter (\<lambda>l. street l = s) cd
              in \<lparr>sr_street = s,
                  sr_rent_per_square_meter = mean (map rent_per_square_meter g),
                  sr_rent_without_expenses = mean (map rent_without_expenses g)\<rparr>)
       (group_keys street cd)"

definition street_counts :: "listing list \<Rightarrow> (string \<times> nat) list" where
  "street_counts cd = map (\<lambda>s. (s, length (filter (\<lambda>l. street l = s) cd))) (group_keys street cd)"

definition get_street_aggregates ::
  "street_row sort_values \<Rightarrow> frame \<Rightarrow> int \<Rightarrow> error + street_agg list" where
  "get_street_aggregates srt complete_data n_similar_streets =
     (let cd = filter (\<lambda>l. year l = 2023) (listings complete_data);
          cd = filter (\<lambda>l. rental_type l = ''apartment'') cd
      in case similar_rent_prices srt (street_groups cd) n_similar_streets of
           Inl e \<Rightarrow> Inl e
         | Inr street_data \<Rightarrow>
             Inr (map (\<lambda>((r, (s, c)), (s', g)). \<lparr>similar = r, count = c, sa_geometry_street = g\<rparr>)
               (merge (\<lambda>(r, c). sr_street (base r)) fst
                  (merge (\<lambda>r. sr_street (base r)) fst street_data (street_counts cd))
                  (drop_duplicates (map (\<lambda>l. (street l, geometry_street l)) cd)))))"

text \<open>
  \<^verbatim>\<open>main\<close>: both aggregators on the one frame, the district aggregator first; an error ends
  the run.
\<close>

definition main ::
  "street_row sort_values \<Rightarrow> frame \<Rightarrow> frame \<times> (error + district_row list \<times> street_agg list)" where
  "main srt complete_data =
     (case get_district_aggregates complete_data of
        (df, Inl e) \<Rightarrow> (df, Inl e)
      | (df, Inr district_data) \<Rightarrow>
          (case get_street_aggregates srt df 5 of
             Inl e \<Rightarrow> (df, Inl e)
           | Inr street_data \<Rightarrow> (df, Inr (district_data, street_data))))"

section \<open>The default sort of \<^verbatim>\<open>sort_values\<close>\<close>
















section \<open>Notions used to state the properties\<close>

text \<open>The column \<^verbatim>\<open>district\<close> of the district table, and the sum of its five count columns.\<close>

definition output_districts :: "district_row list \<Rightarrow> string list" where
  "output_districts out = map (\<lambda>r. pt_district (prices r)) out"

definition room_columns_total :: "district_row \<Rightarrow> nat" where
  "room_columns_total r =
     ct_apartments_w_1_room (counts r) + ct_apartments_w_2_rooms (counts r) +
     ct_apartments_w_3_rooms (counts r) + ct_apartments_w_4_rooms (counts r) +
     ct_apartments_w_p4_rooms (counts r)"





text \<open>
  The listings that the street aggregator keeps (lines 135 and 138), the table
  \<^verbatim>\<open>street_data\<close> it builds from them (line 141), and the listings of one street among them.
\<close>

definition current_apartments :: "frame \<Rightarrow> listing list" where
  "current_apartments df =
     filter (\<lambda>l. rental_type l = ''apartment'') (filter (\<lambda>l. year l = 2023) (listings df))"

definition street_data_of :: "frame \<Rightarrow> street_row list" where
  "street_data_of df = street_groups (current_apartments df)"

definition street_listings :: "frame \<Rightarrow> string \<Rightarrow> listing list" where
  "street_listings df s =
     filter (\<lambda>l. year l = 2023 \<and> rental_type l = ''apartment'' \<and> street l = s) (listings df)"

section \<open>Example tables\<close>

text \<open>
  \<open>row\<close> builds a listing; the geometry of a listing is that of its district, and the street
  geometry that of its street.
\<close>

definition row ::
  "int \<Rightarrow> string \<Rightarrow> string \<Rightarrow> string \<Rightarrow> int \<Rightarrow> string \<Rightarrow> rat \<Rightarrow> rat \<Rightarrow> listing" where
  "row i d s t y r p q =
     \<lparr>ident = i, district = d, street = s, rental_type = t, year = y, rooms = r,
      rent_per_square_meter = p, rent_without_expenses = q,
      geometry = ''POLYGON '' @ d, geometry_street = ''LINESTRING '' @ s\<rparr>"

text \<open>
  Two districts. District A has every rental type in both periods and every rooms bucket in
  2023, one of its 2023 listings being a room; district B has one listing, of 2014.
\<close>

definition two_districts :: frame where
  "two_districts =
     \<lparr>listings =
        [row 1 ''A'' ''s1'' ''apartment'' 2023 ''1'' 100 5000,
         row 2 ''A'' ''s1'' ''apartment'' 2023 ''2'' 120 6000,
         row 3 ''A'' ''s2'' ''apartment'' 2023 ''3'' 130 7000,
         row 4 ''A'' ''s2'' ''apartment'' 2023 ''4'' 140 8000,
         row 5 ''A'' ''s3'' ''apartment'' 2023 ''+4'' 150 9000,
         row 6 ''A'' ''s3'' ''room'' 2023 ''1'' 200 3000,
         row 7 ''A'' ''s4'' ''apartment'' 2014 ''2'' 90 4000,
         row 8 ''A'' ''s4'' ''room'' 2016 ''1'' 180 2500,
         row 9 ''B'' ''s5'' ''apartment'' 2014 ''2'' 80 3500],
      time = None\<rparr>"


text \<open>
  A price table with the districts A and B and a count table with the districts A and C.
\<close>

definition price_rows_AB :: "price_row list" where
  "price_rows_AB =
     [\<lparr>pt_district = ''A'', pt_apartment_rent_sqm_now = Some 128, pt_apartment_rent_sqm_then = Some 90,
       pt_room_rent_now = Some 3000, pt_room_rent_then = Some 2500\<rparr>,
      \<lparr>pt_district = ''B'', pt_apartment_rent_sqm_now = None, pt_apartment_rent_sqm_then = Some 80,
       pt_room_rent_now = None, pt_room_rent_then = None\<rparr>]"

definition count_rows_AC :: "count_row list" where
  "count_rows_AC =
     [\<lparr>ct_district = ''A'', ct_apartments_w_1_room = 1, ct_apartments_w_2_rooms = 2,
       ct_apartments_w_3_rooms = 1, ct_apartments_w_4_rooms = 1, ct_apartments_w_p4_rooms = 1\<rparr>,
      \<lparr>ct_district = ''C'', ct_apartments_w_1_room = 0, ct_apartments_w_2_rooms = 1,
       ct_apartments_w_3_rooms = 0, ct_apartments_w_4_rooms = 0, ct_apartments_w_p4_rooms = 0\<rparr>]"

text \<open>
  The example of the specification: four streets, named after their price per area, in the
  row order 10, 12, 30, 11.
\<close>

definition four_streets :: frame where
  "four_streets =
     \<lparr>listings =
        [row 1 ''D'' ''10'' ''apartment'' 2023 ''2'' 10 1000,
         row 2 ''D'' ''12'' ''apartment'' 2023 ''2'' 12 1200,
         row 3 ''D'' ''30'' ''apartment'' 2023 ''2'' 30 3000,
         row 4 ''D'' ''11'' ''apartment'' 2023 ''2'' 11 1100],
      time = None\<rparr>"


text \<open>
  Six streets with apartment listings of 2023, two of them in street s1, beside a room listing
  and an apartment listing of 2014 in that street.
\<close>

definition six_streets :: frame where
  "six_streets =
     \<lparr>listings =
        [row 1 ''D'' ''s1'' ''apartment'' 2023 ''2'' 10 1000,
         row 2 ''D'' ''s1'' ''apartment'' 2023 ''3'' 14 2000,
         row 3 ''D'' ''s1'' ''room'' 2023 ''1'' 50 500,
         row 4 ''D'' ''s1'' ''apartment'' 2014 ''2'' 6 600,
         row 5 ''D'' ''s2'' ''apartment'' 2023 ''2'' 13 1300,
         row 6 ''D'' ''s3'' ''apartment'' 2023 ''2'' 30 3000,
         row 7 ''E'' ''s4'' ''apartment'' 2023 ''2'' 11 1100,
         row 8 ''E'' ''s5'' ''apartment'' 2023 ''2'' 20 2000,
         row 9 ''E'' ''s6'' ''apartment'' 2023 ''2'' 25 2500],
      time = None\<rparr>"

section \<open>Facts about the library operations\<close>

lemma merge_Nil [simp]: "merge ka kb [] rs = []"
  by (simp add: merge_def)

lemma merge_Cons:
  "merge ka kb (l # ls) rs = map (Pair l) (filter (\<lambda>r. kb r = ka l) rs) @ merge ka kb ls rs"
  by (simp add: merge_def)

lemma set_merge:
  "set (merge ka kb ls rs) = {(l, r). l \<in> set ls \<and> r \<in> set rs \<and> kb r = ka l}"
  by (auto simp: merge_def)

lemma merge_filter_left:
  "merge ka kb (filter (\<lambda>l. ka l \<in> kb ` set rs) ls) rs = merge ka kb ls rs"
proof (induction ls)
  case Nil
  show ?case by simp
next
  case (Cons l ls)
  have "ka l \<notin> kb ` set rs \<Longrightarrow> filter (\<lambda>r. kb r = ka l) rs = []"
    by (force simp: filter_empty_conv image_iff)
  with Cons show ?case by (simp add: merge_Cons)
qed

lemma merge_filter_right:
  "merge ka kb ls (filter (\<lambda>r. kb r \<in> ka ` set ls) rs) = merge ka kb ls rs"
proof -
  have "\<And>l. l \<in> set ls \<Longrightarrow>
      filter (\<lambda>r. kb r = ka l) (filter (\<lambda>r. kb r \<in> ka ` set ls) rs) = filter (\<lambda>r. kb r = ka l) rs"
    by (auto simp: filter_filter intro!: filter_cong)
  then show ?thesis
    unfolding merge_def by (auto intro!: arg_cong[where f=concat] map_cong)
qed

lemma merge_drop_unmatched:
  "merge ka kb ls rs =
     merge ka kb (filter (\<lambda>l. ka l \<in> kb ` set rs) ls) (filter (\<lambda>r. kb r \<in> ka ` set ls) rs)"
proof -
  have "merge ka kb ls rs = merge ka kb (filter (\<lambda>l. ka l \<in> kb ` set rs) ls) rs"
    by (simp add: merge_filter_left)
  also have "\<dots> = merge ka kb (filter (\<lambda>l. ka l \<in> kb ` set rs) ls)
      (filter (\<lambda>r. kb r \<in> ka ` set (filter (\<lambda>l. ka l \<in> kb ` set rs) ls)) rs)"
    by (simp only: merge_filter_right)
  also have "(filter (\<lambda>r. kb r \<in> ka ` set (filter (\<lambda>l. ka l \<in> kb ` set rs) ls)) rs)
     = filter (\<lambda>r. kb r \<in> ka ` set ls) rs"
    by (rule filter_cong) (force simp: image_iff)+
  finally show ?thesis .
qed

lemma set_group_keys [simp]: "set (group_keys f xs) = f ` set xs"
  by (simp add: group_keys_def)

lemma distinct_group_keys [simp]: "distinct (group_keys f xs)"
  by (simp add: group_keys_def)

lemma sorted_group_keys [simp]: "sorted (group_keys f xs)"
  by (simp add: group_keys_def)


lemma zip_map_same: "zip xs (map f xs) = map (\<lambda>x. (x, f x)) xs"
  by (induction xs) simp_all

lemma set_drop_duplicates [simp]: "set (drop_duplicates xs) = set xs"
  by (induction xs rule: drop_duplicates.induct) auto

lemma distinct_drop_duplicates [simp]: "distinct (drop_duplicates xs)"
  by (induction xs rule: drop_duplicates.induct) auto

lemma filter_key_distinct:
  "distinct (map kb rs) \<Longrightarrow> k \<in> kb ` set rs \<Longrightarrow> \<exists>r. filter (\<lambda>r. kb r = k) rs = [r]"
proof (induction rs)
  case Nil
  then show ?case by simp
next
  case (Cons a rs)
  show ?case
  proof (cases "kb a = k")
    case True
    with Cons.prems have "filter (\<lambda>r. kb r = k) rs = []"
      by (force simp: filter_empty_conv image_iff)
    with True show ?thesis by simp
  next
    case False
    with Cons show ?thesis by auto
  qed
qed

lemma merge_keys_distinct_right:
  assumes "distinct (map kb rs)"
  shows "map (\<lambda>(l, r). ka l) (merge ka kb ls rs) = filter (\<lambda>k. k \<in> kb ` set rs) (map ka ls)"
proof (induction ls)
  case Nil
  show ?case by simp
next
  case (Cons l ls)
  show ?case
  proof (cases "ka l \<in> kb ` set rs")
    case True
    from filter_key_distinct[OF assms True] obtain r where "filter (\<lambda>r. kb r = ka l) rs = [r]" ..
    with True Cons show ?thesis by (simp add: merge_Cons)
  next
    case False
    then have "filter (\<lambda>r. kb r = ka l) rs = []"
      by (force simp: filter_empty_conv image_iff)
    with False Cons show ?thesis by (simp add: merge_Cons)
  qed
qed

lemma sorted_distinct_filter_subset:
  fixes xs ys :: "'a::linorder list"
  assumes "sorted xs" "distinct xs" "sorted ys" "distinct ys" "set ys \<subseteq> set xs"
  shows "filter (\<lambda>k. k \<in> set ys) xs = ys"
proof (rule sorted_distinct_set_unique)
  show "sorted (filter (\<lambda>k. k \<in> set ys) xs)" using assms(1) by (rule sorted_wrt_filter)
  show "distinct (filter (\<lambda>k. k \<in> set ys) xs)" using assms(2) by simp
  show "set (filter (\<lambda>k. k \<in> set ys) xs) = set ys" using assms(5) by auto
qed (use assms in auto)







lemma output_districts_merge:
  assumes "distinct (map ct_district C)" "distinct (map fst G)"
  shows "output_districts (merge_district_tables P C G) =
     filter (\<lambda>k. k \<in> fst ` set G) (filter (\<lambda>k. k \<in> ct_district ` set C) (map pt_district P))"
proof -
  have "output_districts (merge_district_tables P C G) =
      map (\<lambda>(l, r). (\<lambda>(p, c). pt_district p) l)
        (merge (\<lambda>(p, c). pt_district p) fst (merge pt_district ct_district P C) G)"
    by (simp add: output_districts_def merge_district_tables_def split_def comp_def)
  also have "\<dots> = filter (\<lambda>k. k \<in> fst ` set G)
      (map (\<lambda>(p, c). pt_district p) (merge pt_district ct_district P C))"
    by (rule merge_keys_distinct_right[OF assms(2)])
  also have "map (\<lambda>(p, c). pt_district p) (merge pt_district ct_district P C) =
      filter (\<lambda>k. k \<in> ct_district ` set C) (map pt_district P)"
    by (rule merge_keys_distinct_right[OF assms(1)])
  finally show ?thesis .
qed

lemma map_pt_district_price_table:
  "price_table tagged = Inr P \<Longrightarrow> map pt_district P = group_keys (\<lambda>(l, t). district l) tagged"
  by (auto simp: price_table_def Let_def comp_def split: if_splits)

lemma map_ct_district_count_table:
  "rooms_count_table rows = Inr C \<Longrightarrow>
     map ct_district C = group_keys district (filter (\<lambda>l. year l = 2023) rows)"
  by (auto simp: rooms_count_table_def Let_def comp_def split: if_splits)

lemma distinct_district_geometry:
  assumes "\<forall>l\<in>set rows. \<forall>l'\<in>set rows. district l = district l' \<longrightarrow> geometry l = geometry l'"
  shows "distinct (map fst (district_geometry rows))"
proof -
  let ?G = "district_geometry rows"
  have mem: "\<And>x. x \<in> set ?G \<Longrightarrow> \<exists>l\<in>set rows. x = (district l, geometry l)"
    unfolding district_geometry_def set_drop_duplicates by (simp add: image_iff)
  have "inj_on fst (set ?G)"
  proof (rule inj_onI)
    fix x y
    assume x: "x \<in> set ?G" and y: "y \<in> set ?G" and e: "fst x = fst y"
    from mem[OF x] obtain l where l: "l \<in> set rows" "x = (district l, geometry l)" by blast
    from mem[OF y] obtain l' where l': "l' \<in> set rows" "y = (district l', geometry l')" by blast
    from e l(2) l'(2) have d: "district l = district l'" by simp
    from assms l(1) l'(1) d have "geometry l = geometry l'" by blast
    with d l(2) l'(2) show "x = y" by simp
  qed
  moreover have "distinct ?G"
    unfolding district_geometry_def by (rule distinct_drop_duplicates)
  ultimately show ?thesis
    unfolding distinct_map by (rule conjI[rotated])
qed

section \<open>Facts about the similarity search\<close>

lemma sort_key_meets_spec: "sort_values_spec sort_key"
  by (simp add: sort_values_spec_def)

lemma sort_values_set: "sort_values_spec srt \<Longrightarrow> set (srt k xs) = set xs"
  unfolding sort_values_spec_def by (metis set_mset_mset)

lemma sort_values_length: "sort_values_spec srt \<Longrightarrow> length (srt k xs) = length xs"
  unfolding sort_values_spec_def by (metis size_mset)




lemma map_sr_street_street_groups: "map sr_street (street_groups cd) = group_keys street cd"
  by (simp add: street_groups_def comp_def Let_def)

lemma distinct_street_groups: "distinct (map sr_street (street_groups cd))"
  by (simp add: map_sr_street_street_groups)

lemma length_filter_other_keys:
  assumes "distinct (map f xs)" "x \<in> set xs"
  shows "length (filter (\<lambda>r. f r \<noteq> f x) xs) = length xs - 1"
proof -
  from assms(2) have "f x \<in> f ` set xs" by simp
  from filter_key_distinct[OF assms(1) this] obtain r where "filter (\<lambda>r. f r = f x) xs = [r]" ..
  then have "length (filter (\<lambda>r. f r = f x) xs) = 1" by simp
  moreover have "length (filter (\<lambda>r. f r = f x) xs) + length (filter (\<lambda>r. \<not> f r = f x) xs) = length xs"
    by (rule sum_length_filter_compl)
  ultimately show ?thesis by simp
qed



lemma set_head_subset: "set (head n xs) \<subseteq> set xs"
  by (auto simp: head_def dest: in_set_takeD)

lemma length_head_nonneg: "0 \<le> n \<Longrightarrow> int (length (head n xs)) = min n (int (length xs))"
  by (simp add: head_def)

lemma similar_streets_excludes_target:
  assumes "sort_values_spec srt"
  shows "sr_street target \<notin> sr_street ` set (similar_streets srt street_data n target)"
proof
  let ?other = "filter (\<lambda>r. sr_street r \<noteq> sr_street target) street_data"
  assume "sr_street target \<in> sr_street ` set (similar_streets srt street_data n target)"
  then obtain r where e: "sr_street target = sr_street r"
    and r: "r \<in> set (similar_streets srt street_data n target)" by (rule imageE)
  have "set (similar_streets srt street_data n target) \<subseteq> set (srt (abs_diff target) ?other)"
    unfolding similar_streets_def Let_def by (rule set_head_subset)
  with r have "r \<in> set (srt (abs_diff target) ?other)" by (rule rev_subsetD)
  then have "r \<in> set ?other" unfolding sort_values_set[OF assms] .
  then have "sr_street r \<noteq> sr_street target" by simp
  with e show False by simp
qed

lemma similar_streets_length:
  assumes "sort_values_spec srt" "0 \<le> n" "distinct (map sr_street street_data)"
    "target \<in> set street_data"
  shows "int (length (similar_streets srt street_data n target)) =
     min n (int (length street_data) - 1)"
proof -
  have "street_data \<noteq> []" using assms(4) by auto
  then have pos: "0 < length street_data" by simp
  have "int (length (similar_streets srt street_data n target)) =
      min n (int (length (filter (\<lambda>r. sr_street r \<noteq> sr_street target) street_data)))"
    unfolding similar_streets_def Let_def
    by (simp only: length_head_nonneg[OF assms(2)] sort_values_length[OF assms(1)])
  also have "length (filter (\<lambda>r. sr_street r \<noteq> sr_street target) street_data) =
      length street_data - 1"
    by (rule length_filter_other_keys[OF assms(3,4)])
  also have "int (length street_data - 1) = int (length street_data) - 1"
    using pos by (simp add: of_nat_diff Suc_leI)
  finally show ?thesis .
qed

section \<open>Facts about the default sort\<close>












section \<open>Facts about the street table\<close>

lemma base_in_street_data:
  assumes "similar_rent_prices srt street_data n = Inr rows" "r \<in> set rows"
  shows "base r \<in> set street_data"
proof -
  from assms(1) have "\<exists>us ups.
      rows = map (\<lambda>(r, s, p). \<lparr>base = r, most_similar = s, most_similar_rent = p\<rparr>)
        (zip street_data (zip us ups))"
    by (auto simp: similar_rent_prices_def split: sum.splits)
  then obtain us ups where
    rows: "rows = map (\<lambda>(r, s, p). \<lparr>base = r, most_similar = s, most_similar_rent = p\<rparr>)
      (zip street_data (zip us ups))" by blast
  from assms(2) obtain x where x: "x \<in> set (zip street_data (zip us ups))"
    and r: "r = (\<lambda>(r, s, p). \<lparr>base = r, most_similar = s, most_similar_rent = p\<rparr>) x"
    unfolding rows by (auto simp: image_iff)
  obtain b sp where xb: "x = (b, sp)" by (cases x)
  from x xb have "b \<in> set street_data" by (auto dest: set_zip_leftD)
  moreover from r xb have "base r = b" by (simp add: split_def)
  ultimately show ?thesis by simp
qed

lemma street_groups_row:
  assumes "b \<in> set (street_groups cd)"
  shows "sr_street b \<in> street ` set cd
    \<and> sr_rent_per_square_meter b =
        mean (map rent_per_square_meter (filter (\<lambda>l. street l = sr_street b) cd))
    \<and> sr_rent_without_expenses b =
        mean (map rent_without_expenses (filter (\<lambda>l. street l = sr_street b) cd))"
proof -
  from assms obtain s where s: "s \<in> set (group_keys street cd)"
    and b: "b = \<lparr>sr_street = s,
        sr_rent_per_square_meter = mean (map rent_per_square_meter (filter (\<lambda>l. street l = s) cd)),
        sr_rent_without_expenses = mean (map rent_without_expenses (filter (\<lambda>l. street l = s) cd))\<rparr>"
    unfolding street_groups_def Let_def by (auto simp: image_iff)
  from s have "s \<in> street ` set cd" by simp
  with b show ?thesis by simp
qed

lemma street_counts_row:
  assumes "(s, c) \<in> set (street_counts cd)"
  shows "c = length (filter (\<lambda>l. street l = s) cd)"
  using assms unfolding street_counts_def by (auto simp: image_iff)

lemma current_apartments_street:
  "filter (\<lambda>l. street l = s) (current_apartments df) = street_listings df s"
  unfolding current_apartments_def street_listings_def filter_filter
  by (rule filter_cong) auto

lemma street_aggregates_row:
  assumes "get_street_aggregates srt df n = Inr out" "r \<in> set out"
  shows "\<exists>rows. similar_rent_prices srt (street_data_of df) n = Inr rows \<and> similar r \<in> set rows
    \<and> (sr_street (base (similar r)), count r) \<in> set (street_counts (current_apartments df))"
proof -
  let ?cd = "current_apartments df"
  let ?geo = "drop_duplicates (map (\<lambda>l. (street l, geometry_street l)) ?cd)"
  from assms(1) have "\<exists>rows.
      similar_rent_prices srt (street_groups ?cd) n = Inr rows
      \<and> out = map (\<lambda>((r, (s, c)), (s', g)). \<lparr>similar = r, count = c, sa_geometry_street = g\<rparr>)
        (merge (\<lambda>(r, c). sr_street (base r)) fst
           (merge (\<lambda>r. sr_street (base r)) fst rows (street_counts ?cd)) ?geo)"
    unfolding get_street_aggregates_def current_apartments_def Let_def
    by (auto split: sum.splits)
  then obtain rows where
    sp: "similar_rent_prices srt (street_groups ?cd) n = Inr rows"
    and out: "out = map (\<lambda>((r, (s, c)), (s', g)). \<lparr>similar = r, count = c, sa_geometry_street = g\<rparr>)
        (merge (\<lambda>(r, c). sr_street (base r)) fst
           (merge (\<lambda>r. sr_street (base r)) fst rows (street_counts ?cd)) ?geo)"
    by blast
  from assms(2) obtain x where
    x: "x \<in> set (merge (\<lambda>(r, c). sr_street (base r)) fst
           (merge (\<lambda>r. sr_street (base r)) fst rows (street_counts ?cd)) ?geo)"
    and r: "r = (\<lambda>((r, (s, c)), (s', g)). \<lparr>similar = r, count = c, sa_geometry_street = g\<rparr>) x"
    unfolding out by (auto simp: image_iff)
  obtain r' s c s' g where xe: "x = ((r', (s, c)), (s', g))" by (cases x) auto
  from x xe have "(r', (s, c)) \<in> set (merge (\<lambda>r. sr_street (base r)) fst rows (street_counts ?cd))"
    unfolding set_merge[of "\<lambda>(r, c). sr_street (base r)"] by blast
  then have m: "r' \<in> set rows" "(s, c) \<in> set (street_counts ?cd)" "s = sr_street (base r')"
    unfolding set_merge by auto
  from r xe have "similar r = r'" "count r = c" by simp_all
  with m sp show ?thesis by (simp add: street_data_of_def)
qed

section \<open>Facts about the room counts\<close>

text \<open>
  The five count columns of a row of the count table sum to the number of all listings of 2023
  in the district, whatever their rental type.
\<close>

lemma sum_list_group_sizes:
  assumes "distinct ks" "g ` set xs \<subseteq> set ks"
  shows "sum_list (map (\<lambda>k. length (filter (\<lambda>x. g x = k) xs)) ks) = length xs"
proof -
  have e: "\<And>k. length (filter (\<lambda>x. g x = k) xs) = count_list (map g xs) k"
    by (induction xs) auto
  have "sum_list (map (\<lambda>k. length (filter (\<lambda>x. g x = k) xs)) ks) =
      (\<Sum>k\<in>set ks. count_list (map g xs) k)"
    using assms(1) by (simp add: sum_list_distinct_conv_sum_set e)
  also have "\<dots> = length (map g xs)"
    by (rule sum_count_set) (use assms(2) in auto)
  finally show ?thesis by simp
qed

lemma list_of_length_5:
  assumes "length xs = 5"
  shows "xs = [xs ! 0, xs ! 1, xs ! 2, xs ! 3, xs ! 4]"
proof -
  from assms obtain a b c d e where "xs = [a, b, c, d, e]"
    by (auto simp: numeral_eq_Suc length_Suc_conv)
  then show ?thesis by simp
qed

lemma fillna_rooms_cell:
  "fillna (rooms_cell now d r) = length (filter (\<lambda>l. rooms l = r) (filter (\<lambda>l. district l = d) now))"
proof -
  have "filter (\<lambda>l. rooms l = r) (filter (\<lambda>l. district l = d) now) =
      filter (\<lambda>l. district l = d \<and> rooms l = r) now"
    unfolding filter_filter by (rule filter_cong) auto
  then show ?thesis by (simp add: fillna_def rooms_cell_def Let_def)
qed

lemma room_columns_count_all_2023_listings:
  assumes "rooms_count_table rows = Inr C" "c \<in> set C"
  shows "ct_apartments_w_1_room c + ct_apartments_w_2_rooms c + ct_apartments_w_3_rooms c +
         ct_apartments_w_4_rooms c + ct_apartments_w_p4_rooms c =
         length (filter (\<lambda>l. district l = ct_district c) (filter (\<lambda>l. year l = 2023) rows))"
proof -
  let ?now = "filter (\<lambda>l. year l = 2023) rows"
  let ?cols = "group_keys rooms ?now"
  let ?f = "\<lambda>d r. length (filter (\<lambda>l. rooms l = r) (filter (\<lambda>l. district l = d) ?now))"
  from assms(1) have len: "length ?cols = 5"
    by (simp add: rooms_count_table_def Let_def split: if_splits)
  from assms(1) len have C: "C = map (\<lambda>d.
           \<lparr>ct_district = d,
            ct_apartments_w_1_room = ?f d (?cols ! 0),
            ct_apartments_w_2_rooms = ?f d (?cols ! 1),
            ct_apartments_w_3_rooms = ?f d (?cols ! 2),
            ct_apartments_w_4_rooms = ?f d (?cols ! 3),
            ct_apartments_w_p4_rooms = ?f d (?cols ! 4)\<rparr>) (group_keys district ?now)"
    by (simp add: rooms_count_table_def Let_def fillna_rooms_cell)
  from assms(2) obtain d where c: "c = \<lparr>ct_district = d,
            ct_apartments_w_1_room = ?f d (?cols ! 0),
            ct_apartments_w_2_rooms = ?f d (?cols ! 1),
            ct_apartments_w_3_rooms = ?f d (?cols ! 2),
            ct_apartments_w_4_rooms = ?f d (?cols ! 3),
            ct_apartments_w_p4_rooms = ?f d (?cols ! 4)\<rparr>"
    unfolding C by auto
  have "sum_list (map (?f d) ?cols) = length (filter (\<lambda>l. district l = d) ?now)"
    by (rule sum_list_group_sizes) auto
  moreover have "sum_list (map (?f d) ?cols) =
      ?f d (?cols ! 0) + ?f d (?cols ! 1) + ?f d (?cols ! 2) + ?f d (?cols ! 3) + ?f d (?cols ! 4)"
    by (subst list_of_length_5[OF len]) simp
  ultimately show ?thesis by (simp add: c)
qed

section \<open>Properties of the district aggregator\<close>

text \<open>
  Claim C5. The district aggregator stores a time tag for every listing of the input table, in
  row order: the tag of a listing is "now" if and only if its year is 2023, and "then"
  otherwise.
\<close>

theorem time_tag_now_iff_2023:
  "time (fst (get_district_aggregates df)) = Some (map (\<lambda>l. time_tag (year l)) (listings df))
   \<and> (\<forall>y. (time_tag y = ''now'') = (y = 2023))
   \<and> (\<forall>y. (time_tag y = ''then'') = (y \<noteq> 2023))"
  by (simp add: get_district_aggregates_def add_time_def time_tag_def Let_def)

text \<open>
  Claim C7, as the source has it. The district aggregator does change the frame it is given:
  it stores the column \<^verbatim>\<open>time\<close> in it. On the example table the frame after the call differs
  from the frame before.
\<close>

theorem district_aggregator_changes_frame:
  "fst (get_district_aggregates two_districts) \<noteq> two_districts"
  by (simp add: get_district_aggregates_def add_time_def two_districts_def Let_def)

text \<open>
  Claim C7, amended. The district aggregator adds the column \<^verbatim>\<open>time\<close> to the shared frame and
  leaves its rows as they were; the street aggregator does not read that column, so its result
  on the frame after the district aggregator is its result on the frame before, and the street
  table that \<^verbatim>\<open>main\<close> computes after the district table is the one it would compute from
  the frame as read.
\<close>

theorem street_output_independent_of_district_run:
  "listings (fst (get_district_aggregates df)) = listings df
   \<and> time (fst (get_district_aggregates df)) = Some (map (\<lambda>l. time_tag (year l)) (listings df))
   \<and> get_street_aggregates srt (fst (get_district_aggregates df)) n =
       get_street_aggregates srt df n
   \<and> snd (main srt df) =
       (case snd (get_district_aggregates df) of
          Inl e \<Rightarrow> Inl e
        | Inr district_data \<Rightarrow> map_sum id (Pair district_data) (get_street_aggregates srt df 5))"
proof -
  have s: "get_street_aggregates srt (add_time df) n = get_street_aggregates srt df n" for n
    by (simp add: add_time_def get_street_aggregates_def Let_def)
  have a: "listings (add_time df) = listings df" by (simp add: add_time_def)
  have b: "time (add_time df) = Some (map (\<lambda>l. time_tag (year l)) (listings df))"
    by (simp add: add_time_def)
  show ?thesis
    by (simp add: get_district_aggregates_def main_def Let_def s a b split: sum.splits)
qed

text \<open>
  Claim C1, on the example table. District A has five apartment listings of 2023 and one room
  listing of 2023; the five room-count columns of its row sum to six: line 46 filters on the
  year alone, so the room listing is counted as well.
\<close>

theorem room_columns_count_room_listings: "map_sum id (map room_columns_total) (snd (get_district_aggregates two_districts)) = Inr [6]
  \<and> length (filter (\<lambda>l. district l = ''A'' \<and> year l = 2023 \<and> rental_type l = ''apartment'') (listings two_districts)) = 5"
  by code_simp

text \<open>
  Claim C6, as stated, fails on the example table: district B occurs in the input and has no
  row in the output, since it has no listing of 2023 and line 58 is an inner join.
\<close>

theorem district_without_2023_listing_has_no_row: "map_sum id output_districts (snd (get_district_aggregates two_districts)) = Inr [''A'']
  \<and> ''B'' \<in> set (map district (listings two_districts))"
  by code_simp

text \<open>
  Claim C6, amended. When the district aggregator succeeds and every district carries one
  geometry, the districts of the output rows are the districts that have a listing of 2023,
  each once, in ascending order.
\<close>

theorem one_row_per_district_with_2023_listing:
  assumes ok: "snd (get_district_aggregates df) = Inr out"
      and geo: "\<forall>l\<in>set (listings df). \<forall>l'\<in>set (listings df).
                 district l = district l' \<longrightarrow> geometry l = geometry l'"
  shows "output_districts out = group_keys district (filter (\<lambda>l. year l = 2023) (listings df))"
proof -
  let ?rows = "listings df"
  let ?tagged = "zip ?rows (map (\<lambda>l. time_tag (year l)) ?rows)"
  let ?now = "filter (\<lambda>l. year l = 2023) ?rows"
  from ok obtain P C where P: "price_table ?tagged = Inr P"
    and C: "rooms_count_table ?rows = Inr C"
    and out: "out = merge_district_tables P C (district_geometry ?rows)"
    by (auto simp: get_district_aggregates_def add_time_def district_table_def Let_def
        split: sum.splits)
  have keysP: "map pt_district P = group_keys district ?rows"
    using map_pt_district_price_table[OF P]
    by (simp add: group_keys_def zip_map_same comp_def)
  have keysC: "map ct_district C = group_keys district ?now"
    by (rule map_ct_district_count_table[OF C])
  have dC: "distinct (map ct_district C)" by (simp add: keysC)
  have dG: "distinct (map fst (district_geometry ?rows))"
    by (rule distinct_district_geometry[OF geo])
  have setC: "ct_district ` set C = district ` set ?now"
    using arg_cong[OF keysC, of set] by simp
  have setG: "fst ` set (district_geometry ?rows) = district ` set ?rows"
    by (force simp: district_geometry_def image_iff)
  have step: "filter (\<lambda>k. k \<in> ct_district ` set C) (map pt_district P) = group_keys district ?now"
    unfolding keysP setC
    using sorted_distinct_filter_subset[of "group_keys district ?rows" "group_keys district ?now"]
    by auto
  have "output_districts out =
      filter (\<lambda>k. k \<in> fst ` set (district_geometry ?rows)) (group_keys district ?now)"
    unfolding out output_districts_merge[OF dC dG] step ..
  also have "\<dots> = group_keys district ?now"
    unfolding setG by (rule filter_True) auto
  finally show ?thesis .
qed

theorem one_row_per_district_witness:
  "output_districts (projr (snd (get_district_aggregates two_districts))) = [''A'']"
proof -
  have ok: "snd (get_district_aggregates two_districts) =
      Inr (projr (snd (get_district_aggregates two_districts)))" by code_simp
  have geo: "\<forall>l\<in>set (listings two_districts). \<forall>l'\<in>set (listings two_districts).
      district l = district l' \<longrightarrow> geometry l = geometry l'" by code_simp
  have e: "group_keys district (filter (\<lambda>l. year l = 2023) (listings two_districts)) = [''A'']"
    by code_simp
  from one_row_per_district_with_2023_listing[OF ok geo] e show ?thesis by (rule trans)
qed

text \<open>
  Claim C8. When both tables are built, the district aggregator returns the merged table and no
  error. The merge of lines 58 and 61 is an inner join on the district: its result is the
  result on the tables without the price rows whose district has no count row and without the
  count rows whose district has no price row, and the districts of its rows are those present
  in the price table, the count table and the geometry table.
\<close>

theorem district_merge_drops_unmatched_keys:
  "(time df = Some ts \<and> price_table (zip (listings df) ts) = Inr P \<and>
      rooms_count_table (listings df) = Inr C \<longrightarrow>
      district_table df = Inr (merge_district_tables P C (district_geometry (listings df))))
   \<and> merge_district_tables P' C' G =
       merge_district_tables (filter (\<lambda>p. pt_district p \<in> ct_district ` set C') P')
         (filter (\<lambda>c. ct_district c \<in> pt_district ` set P') C') G
   \<and> set (output_districts (merge_district_tables P' C' G)) =
       pt_district ` set P' \<inter> ct_district ` set C' \<inter> fst ` set G"
proof (intro conjI impI)
  assume "time df = Some ts \<and> price_table (zip (listings df) ts) = Inr P \<and>
      rooms_count_table (listings df) = Inr C"
  then show "district_table df = Inr (merge_district_tables P C (district_geometry (listings df)))"
    by (simp add: district_table_def)
next
  show "merge_district_tables P' C' G =
       merge_district_tables (filter (\<lambda>p. pt_district p \<in> ct_district ` set C') P')
         (filter (\<lambda>c. ct_district c \<in> pt_district ` set P') C') G"
    unfolding merge_district_tables_def
    by (subst merge_drop_unmatched[of pt_district ct_district P' C']) (rule refl)
next
  show "set (output_districts (merge_district_tables P' C' G)) =
       pt_district ` set P' \<inter> ct_district ` set C' \<inter> fst ` set G"
    by (force simp: output_districts_def merge_district_tables_def set_merge image_iff)
qed

theorem district_merge_witness:
  "district_table (add_time two_districts) =
     Inr (merge_district_tables
       (projr (price_table (zip (listings two_districts)
          (map (\<lambda>l. time_tag (year l)) (listings two_districts)))))
       (projr (rooms_count_table (listings two_districts)))
       (district_geometry (listings two_districts)))
   \<and> merge_district_tables price_rows_AB count_rows_AC [(''A'', ''g''), (''B'', ''h''), (''C'', ''k'')] =
       merge_district_tables [hd price_rows_AB] [hd count_rows_AC] [(''A'', ''g''), (''B'', ''h''), (''C'', ''k'')]
   \<and> set (output_districts (merge_district_tables price_rows_AB count_rows_AC
         [(''A'', ''g''), (''B'', ''h''), (''C'', ''k'')])) = {''A''}"
proof -
  let ?ts = "map (\<lambda>l. time_tag (year l)) (listings two_districts)"
  let ?P = "projr (price_table (zip (listings two_districts) ?ts))"
  let ?C = "projr (rooms_count_table (listings two_districts))"
  let ?G = "[(''A'', ''g''), (''B'', ''h''), (''C'', ''k'')]"
  have l: "listings (add_time two_districts) = listings two_districts"
    by (simp add: add_time_def)
  have h1: "time (add_time two_districts) = Some ?ts" by (simp add: add_time_def)
  have h2: "price_table (zip (listings two_districts) ?ts) = Inr ?P" by code_simp
  have h3: "rooms_count_table (listings two_districts) = Inr ?C" by code_simp
  have h: "time (add_time two_districts) = Some ?ts \<and>
      price_table (zip (listings (add_time two_districts)) ?ts) = Inr ?P \<and>
      rooms_count_table (listings (add_time two_districts)) = Inr ?C"
    unfolding l using h1 h2 h3 by (intro conjI)
  have f1: "filter (\<lambda>p. pt_district p \<in> ct_district ` set count_rows_AC) price_rows_AB = [hd price_rows_AB]"
    by code_simp
  have f2: "filter (\<lambda>c. ct_district c \<in> pt_district ` set price_rows_AB) count_rows_AC = [hd count_rows_AC]"
    by code_simp
  have f3: "pt_district ` set price_rows_AB \<inter> ct_district ` set count_rows_AC \<inter> fst ` set ?G = {''A''}"
    by code_simp
  note t = district_merge_drops_unmatched_keys
    [of "add_time two_districts" ?ts ?P ?C price_rows_AB count_rows_AC ?G]
  note a = conjunct1[OF t, THEN mp, OF h, unfolded l]
  note b = conjunct1[OF conjunct2[OF t], unfolded f1 f2]
  note c = conjunct2[OF conjunct2[OF t], unfolded f3]
  from a b c show ?thesis by (intro conjI)
qed



section \<open>Properties of the street aggregator\<close>




text \<open>
  Claim C3, on the example of the specification with N = 2: the loop computes lists of two
  streets, the names of line 107 are five whatever N is, and the constructor of line 108
  raises \<^verbatim>\<open>ValueError\<close>. With N = 5 and only three other streets it raises as well, instead of
  filling the missing columns.
\<close>

theorem five_columns_whatever_n:
  "get_street_aggregates sort_key four_streets 2 = Inl ValueError
   \<and> most_similar_streets sort_key (street_data_of four_streets) 2 =
       [[''11'', ''12''], [''10'', ''12''], [''11'', ''10''], [''12'', ''11'']]
   \<and> length new_columns_streets = 5
   \<and> get_street_aggregates sort_key four_streets 5 = Inl ValueError"
  by code_simp

text \<open>
  Claim C4. For every table of listings, every street of \<^verbatim>\<open>street_data\<close> and every N that is
  not negative, the list of similar streets that the loop computes for the street does not
  contain the street, and its length is the minimum of N and the number of streets minus one.
\<close>

theorem similar_list_excludes_street_and_has_min_length:
  assumes "sort_values_spec srt" and "0 \<le> n" and "i < length (street_groups cd)"
  shows "sr_street (street_groups cd ! i) \<notin> set (most_similar_streets srt (street_groups cd) n ! i)
     \<and> int (length (most_similar_streets srt (street_groups cd) n ! i)) =
         min n (int (length (street_groups cd)) - 1)"
proof -
  let ?sd = "street_groups cd"
  have t: "?sd ! i \<in> set ?sd" using assms(3) by simp
  have e: "most_similar_streets srt ?sd n ! i = map sr_street (similar_streets srt ?sd n (?sd ! i))"
    using assms(3) by (simp add: most_similar_streets_def)
  have a: "sr_street (?sd ! i) \<notin> set (map sr_street (similar_streets srt ?sd n (?sd ! i)))"
    using similar_streets_excludes_target[OF assms(1)] by simp
  have b: "int (length (map sr_street (similar_streets srt ?sd n (?sd ! i)))) =
      min n (int (length ?sd) - 1)"
    using similar_streets_length[OF assms(1,2) distinct_street_groups t] by simp
  show ?thesis unfolding e using a b by (rule conjI)
qed

theorem similar_list_witness:
  "sr_street (street_groups (listings four_streets) ! 0) = ''10'' \<and>
   most_similar_streets sort_key (street_groups (listings four_streets)) 2 ! 0 = [''11'', ''12''] \<and>
   ''10'' \<notin> set [''11'', ''12''] \<and>
   int (length [''11'', ''12'']) = min 2 (int (length (street_groups (listings four_streets))) - 1)"
proof -
  have i: "0 < length (street_groups (listings four_streets))" by code_simp
  have n: "(0::int) \<le> 2" by simp
  have s: "sr_street (street_groups (listings four_streets) ! 0) = ''10''" by code_simp
  have m: "most_similar_streets sort_key (street_groups (listings four_streets)) 2 ! 0 = [''11'', ''12'']"
    by code_simp
  note t = similar_list_excludes_street_and_has_min_length[OF sort_key_meets_spec n i, unfolded s m]
  from s m t show ?thesis by (intro conjI conjunct1[OF t] conjunct2[OF t])
qed

text \<open>
  Claim C9. Every row of the street aggregator's output is the row of a street that has a
  listing with year 2023 and rental type apartment: its two means are the arithmetic means of
  \<^verbatim>\<open>rent_per_square_meter\<close> and of \<^verbatim>\<open>rent_without_expenses\<close> over exactly the listings of that
  street with year 2023 and rental type apartment, and its count is the number of those
  listings.
\<close>

theorem street_means_and_count:
  assumes "get_street_aggregates srt df n = Inr out" and "r \<in> set out"
  shows "street_listings df (sr_street (base (similar r))) \<noteq> []
    \<and> sr_rent_per_square_meter (base (similar r)) =
        mean (map rent_per_square_meter (street_listings df (sr_street (base (similar r)))))
    \<and> sr_rent_without_expenses (base (similar r)) =
        mean (map rent_without_expenses (street_listings df (sr_street (base (similar r)))))
    \<and> count r = length (street_listings df (sr_street (base (similar r))))"
proof -
  let ?b = "base (similar r)"
  from street_aggregates_row[OF assms] obtain rows where
    sp: "similar_rent_prices srt (street_data_of df) n = Inr rows" and
    sr: "similar r \<in> set rows" and
    ct: "(sr_street ?b, count r) \<in> set (street_counts (current_apartments df))" by blast
  have "?b \<in> set (street_groups (current_apartments df))"
    using base_in_street_data[OF sp sr] by (simp add: street_data_of_def)
  note g = street_groups_row[OF this, unfolded current_apartments_street]
  note c = street_counts_row[OF ct, unfolded current_apartments_street]
  from conjunct1[OF g] have "filter (\<lambda>l. street l = sr_street ?b) (current_apartments df) \<noteq> []"
    by (auto simp: filter_empty_conv)
  then have ne: "street_listings df (sr_street ?b) \<noteq> []"
    unfolding current_apartments_street .
  from ne conjunct1[OF conjunct2[OF g]] conjunct2[OF conjunct2[OF g]] c
  show ?thesis by (intro conjI)
qed

theorem street_means_and_count_witness:
  "\<not> isl (get_street_aggregates sort_key six_streets 5)
   \<and> sr_street (base (similar (hd (projr (get_street_aggregates sort_key six_streets 5))))) = ''s1''
   \<and> map ident (street_listings six_streets ''s1'') = [1, 2]
   \<and> sr_rent_per_square_meter (base (similar (hd (projr (get_street_aggregates sort_key six_streets 5))))) = 12
   \<and> sr_rent_without_expenses (base (similar (hd (projr (get_street_aggregates sort_key six_streets 5))))) = 1500
   \<and> count (hd (projr (get_street_aggregates sort_key six_streets 5))) = 2"
proof -
  let ?out = "projr (get_street_aggregates sort_key six_streets 5)"
  have ok: "get_street_aggregates sort_key six_streets 5 = Inr ?out" by code_simp
  have mem: "hd ?out \<in> set ?out" by code_simp
  have i: "\<not> isl (get_street_aggregates sort_key six_streets 5)" by (subst ok) simp
  have s: "sr_street (base (similar (hd ?out))) = ''s1''" by code_simp
  have l: "map ident (street_listings six_streets ''s1'') = [1, 2]" by code_simp
  have m1: "mean (map rent_per_square_meter (street_listings six_streets ''s1'')) = 12" by code_simp
  have m2: "mean (map rent_without_expenses (street_listings six_streets ''s1'')) = 1500" by code_simp
  have n: "length (street_listings six_streets ''s1'') = 2" by code_simp
  note t = street_means_and_count[OF ok mem, unfolded s m1 m2 n]
  from i s l t show ?thesis by (intro conjI conjunct1[OF conjunct2[OF t]]
      conjunct1[OF conjunct2[OF conjunct2[OF t]]] conjunct2[OF conjunct2[OF conjunct2[OF t]]])
qed

end
